theory Spec2Isabelle
  imports Complex_Main "HOL-Library.Sublist"
begin

section \<open>JavaScript string primitives used by the services\<close>

text \<open>
  Strings are sequences of code units; the model takes code units below 256, so a
  string is a \<open>char list\<close>.  In that range the white space of \<open>String.prototype.trim\<close>
  and of the regular expression class \<open>\s\<close> is TAB, LF, VT, FF, CR, SPACE and NBSP.
\<close>

definition isWhiteSpace :: "char \<Rightarrow> bool" where
  "isWhiteSpace c \<longleftrightarrow> c \<in> set [CHR 0x09, CHR 0x0A, CHR 0x0B, CHR 0x0C, CHR 0x0D, CHR 0x20, CHR 0xA0]"

definition trim :: "string \<Rightarrow> string" where
  "trim s = rev (dropWhile isWhiteSpace (rev (dropWhile isWhiteSpace s)))"

text \<open>
  \<open>s.substring(a, b)\<close>: both indices are clamped to \<open>[0, length]\<close> and swapped when
  the first is the larger one.
\<close>

definition substring :: "string \<Rightarrow> int \<Rightarrow> int \<Rightarrow> string" where
  "substring s a b =
     (let n = int (length s);
          a' = min (max a 0) n;
          b' = min (max b 0) n;
          lo = min a' b';
          hi = max a' b'
      in take (nat (hi - lo)) (drop (nat lo) s))"

text \<open>\<open>s.lastIndexOf(p)\<close>: the largest index where \<open>p\<close> occurs in \<open>s\<close>, or \<open>-1\<close>.\<close>

fun lastIndexOf :: "string \<Rightarrow> string \<Rightarrow> int" where
  "lastIndexOf [] p = (if p = [] then 0 else -1)"
| "lastIndexOf (c # cs) p =
     (let r = lastIndexOf cs p
      in if 0 \<le> r then r + 1 else if prefix p (c # cs) then 0 else -1)"

text \<open>\<open>s.indexOf(p)\<close> as an option, and \<open>s.includes(p)\<close>.\<close>

fun indexOf :: "string \<Rightarrow> string \<Rightarrow> nat option" where
  "indexOf [] p = (if p = [] then Some 0 else None)"
| "indexOf (c # cs) p =
     (if prefix p (c # cs) then Some 0 else map_option Suc (indexOf cs p))"

definition includes_str :: "string \<Rightarrow> string \<Rightarrow> bool" where
  "includes_str s p \<longleftrightarrow> indexOf s p \<noteq> None"

text \<open>
  \<open>toLowerCase\<close> on code units below 256 maps A-Z and the Latin-1 capitals
  (0xC0-0xDE without the multiplication sign 0xD7) to the letter 32 places up.
\<close>

definition asciiUpper :: string where
  "asciiUpper = ''ABCDEFGHIJKLMNOPQRSTUVWXYZ''"

definition asciiLower :: string where
  "asciiLower = ''abcdefghijklmnopqrstuvwxyz''"

definition latinUpper :: string where
  "latinUpper =
     [CHR 0xC0, CHR 0xC1, CHR 0xC2, CHR 0xC3, CHR 0xC4, CHR 0xC5, CHR 0xC6, CHR 0xC7,
      CHR 0xC8, CHR 0xC9, CHR 0xCA, CHR 0xCB, CHR 0xCC, CHR 0xCD, CHR 0xCE, CHR 0xCF,
      CHR 0xD0, CHR 0xD1, CHR 0xD2, CHR 0xD3, CHR 0xD4, CHR 0xD5, CHR 0xD6,
      CHR 0xD8, CHR 0xD9, CHR 0xDA, CHR 0xDB, CHR 0xDC, CHR 0xDD, CHR 0xDE]"

definition latinLower :: string where
  "latinLower =
     [CHR 0xE0, CHR 0xE1, CHR 0xE2, CHR 0xE3, CHR 0xE4, CHR 0xE5, CHR 0xE6, CHR 0xE7,
      CHR 0xE8, CHR 0xE9, CHR 0xEA, CHR 0xEB, CHR 0xEC, CHR 0xED, CHR 0xEE, CHR 0xEF,
      CHR 0xF0, CHR 0xF1, CHR 0xF2, CHR 0xF3, CHR 0xF4, CHR 0xF5, CHR 0xF6,
      CHR 0xF8, CHR 0xF9, CHR 0xFA, CHR 0xFB, CHR 0xFC, CHR 0xFD, CHR 0xFE]"

definition lowerChar :: "char \<Rightarrow> char" where
  "lowerChar c =
     (case map_of (zip (asciiUpper @ latinUpper) (asciiLower @ latinLower)) c of
        None \<Rightarrow> c
      | Some l \<Rightarrow> l)"

definition toLowerCase :: "string \<Rightarrow> string" where
  "toLowerCase s = map lowerChar s"

text \<open>Decimal rendering of a non-negative integer, as template literals print it.\<close>

definition digitChar :: "nat \<Rightarrow> char" where
  "digitChar d = ''0123456789'' ! d"

fun showNat :: "nat \<Rightarrow> string" where
  "showNat n = (if n < 10 then [digitChar n] else showNat (n div 10) @ [digitChar (n mod 10)])"

declare showNat.simps [simp del]

section \<open>Web scraper: the text handed to the document processor\<close>

text \<open>
  Every text field of a scraped document is the result of \<open>cleanText\<close>: each run of
  white space becomes one blank, each \<open>\n\s*\n\<close> becomes one line feed (the match runs
  from a line feed to the last line feed of the white space after it), and the result is
  trimmed.
\<close>

function collapseWhiteSpace :: "string \<Rightarrow> string" where
  "collapseWhiteSpace [] = []"
| "collapseWhiteSpace (c # cs) =
     (if isWhiteSpace c then CHR '' '' # collapseWhiteSpace (dropWhile isWhiteSpace cs)
      else c # collapseWhiteSpace cs)"
  by pat_completeness auto
termination
  by (relation "measure length") (auto simp: length_dropWhile_le less_Suc_eq_le)

function replaceBlankLines :: "string \<Rightarrow> string" where
  "replaceBlankLines [] = []"
| "replaceBlankLines (c # cs) =
     (if c = CHR 0x0A \<and> CHR 0x0A \<in> set (takeWhile isWhiteSpace cs)
      then CHR 0x0A #
           replaceBlankLines
             (drop (Suc (nat (lastIndexOf (takeWhile isWhiteSpace cs) [CHR 0x0A]))) cs)
      else c # replaceBlankLines cs)"
  by pat_completeness auto
termination
  by (relation "measure length") auto

definition cleanText :: "string \<Rightarrow> string" where
  "cleanText t = trim (replaceBlankLines (collapseWhiteSpace t))"

section \<open>Document processor\<close>

text \<open>
  The constructor reads \<open>chunkSize\<close> and \<open>chunkOverlap\<close> from the environment
  (defaults 800 and 200); they are parameters of every function below.
\<close>

definition defaultChunkSize :: int where
  "defaultChunkSize = 800"

definition defaultChunkOverlap :: int where
  "defaultChunkOverlap = 200"

text \<open>
  The end of the window that starts at \<open>startIndex\<close>: the raw end
  \<open>startIndex + chunkSize\<close>, pulled back to just after the last sentence ending of the
  window when that ending lies beyond half of \<open>chunkSize\<close> and the window is not the
  last one.  The test \<open>lastSentenceEnd > chunkSize * 0.5\<close> is written on integers.
\<close>

definition lastSentenceEnd :: "string \<Rightarrow> int" where
  "lastSentenceEnd w =
     max (max (max (lastIndexOf w ''. '') (lastIndexOf w ''! '')) (lastIndexOf w ''? ''))
         (lastIndexOf w [CHR 0x0A])"

definition windowEnd :: "int \<Rightarrow> string \<Rightarrow> int \<Rightarrow> int" where
  "windowEnd chunkSize text startIndex =
     (let endIndex = startIndex + chunkSize
      in if endIndex < int (length text)
         then (let l = lastSentenceEnd (substring text startIndex endIndex)
               in if chunkSize < 2 * l then startIndex + l + 1 else endIndex)
         else endIndex)"

text \<open>
  The \<open>while\<close> loop of \<open>chunkText\<close>.  The loop need not terminate (an all-blank text
  with \<open>chunkOverlap = chunkSize\<close> never advances), so not returning is the value
  \<open>None\<close>.  The exit test reads the length of the last chunk pushed so far; on an
  empty chunk list that read is \<open>undefined\<close> and the comparison is false.
\<close>

partial_function (option) chunkLoop ::
  "int \<Rightarrow> int \<Rightarrow> string \<Rightarrow> int \<Rightarrow> string list \<Rightarrow> string list option" where
  "chunkLoop chunkSize chunkOverlap text startIndex chunks =
     (if startIndex < int (length text)
      then (let endIndex = windowEnd chunkSize text startIndex;
                chunk = trim (substring text startIndex endIndex);
                chunks' = (if 0 < length chunk then chunks @ [chunk] else chunks);
                startIndex' = endIndex - chunkOverlap
            in if startIndex' \<le> int (length (last chunks')) \<and> 0 < length chunks'
               then Some chunks'
               else chunkLoop chunkSize chunkOverlap text startIndex' chunks')
      else Some chunks)"

definition chunkText :: "int \<Rightarrow> int \<Rightarrow> string \<Rightarrow> string list option" where
  "chunkText chunkSize chunkOverlap text =
     (if int (length text) \<le> chunkSize then Some [text]
      else chunkLoop chunkSize chunkOverlap text 0 [])"

text \<open>
  A scraped document, and the chunk objects \<open>processDocument\<close> builds from it.  The
  store keeps objects that have at least the fields of \<open>document\<close> (the seed knowledge
  base has no \<open>url\<close>, hence the option); a chunk extends them.  The field \<open>id\<close> is
  written \<open>id_doc\<close>, and the fields of the scraped document carry the prefix \<open>sd_\<close>.
\<close>

record scrapedDoc =
  sd_title :: string
  sd_content :: string
  sd_url :: string
  sd_scrapedAt :: string
  sd_description :: string

record document =
  id_doc :: string
  title :: string
  content :: string
  category :: string
  url :: "string option"

record chunk = document +
  chunk :: nat
  totalChunks :: nat
  scrapedAt :: string
  description :: string
  contentHash :: string

definition categorizeContent :: "string \<Rightarrow> string \<Rightarrow> string \<Rightarrow> string" where
  "categorizeContent u t c =
     (let urlLower = toLowerCase u;
          titleLower = toLowerCase t;
          contentLower = toLowerCase (substring c 0 500)
      in if includes_str urlLower ''/docs'' \<or> includes_str urlLower ''/documentation'' \<or>
            includes_str titleLower ''documentation'' \<or> includes_str titleLower ''guide''
         then ''documentation''
         else if includes_str urlLower ''/blog'' \<or> includes_str urlLower ''/article'' \<or>
            includes_str urlLower ''/post'' \<or> includes_str urlLower ''/news''
         then ''article''
         else if includes_str urlLower ''/product'' \<or> includes_str urlLower ''/shop'' \<or>
            includes_str titleLower ''product'' \<or> includes_str contentLower ''price''
         then ''product''
         else if includes_str urlLower ''/faq'' \<or> includes_str titleLower ''faq'' \<or>
            includes_str titleLower ''frequently asked''
         then ''faq''
         else if includes_str urlLower ''/support'' \<or> includes_str urlLower ''/help'' \<or>
            includes_str titleLower ''support'' \<or> includes_str titleLower ''help''
         then ''support''
         else ''general'')"

text \<open>
  The MD5 digest in hexadecimal comes from the \<open>crypto\<close> module; it is the parameter
  \<open>md5\<close> of the functions that hash.
\<close>

definition generateId :: "(string \<Rightarrow> string) \<Rightarrow> string \<Rightarrow> string" where
  "generateId md5 u = substring (md5 u) 0 12"

definition generateHash :: "(string \<Rightarrow> string) \<Rightarrow> string \<Rightarrow> string" where
  "generateHash md5 c = md5 (trim c)"

definition makeChunk ::
  "(string \<Rightarrow> string) \<Rightarrow> scrapedDoc \<Rightarrow> string \<Rightarrow> nat \<Rightarrow> nat \<Rightarrow> string \<Rightarrow> chunk" where
  "makeChunk md5 d baseId n index chunkContent =
     \<lparr> id_doc = baseId @ ''-chunk-'' @ showNat index,
       title = sd_title d @ '' (Part '' @ showNat (index + 1) @ ''/'' @ showNat n @ '')'',
       content = chunkContent,
       category = categorizeContent (sd_url d) (sd_title d) (sd_content d),
       url = Some (sd_url d),
       chunk = index,
       totalChunks = n,
       scrapedAt = sd_scrapedAt d,
       description = (if index = 0 then sd_description d else []),
       contentHash = generateHash md5 chunkContent \<rparr>"

text \<open>
  \<open>processDocument\<close>: an empty result for a content shorter than 50 characters,
  otherwise one chunk object per piece of \<open>chunkText\<close>.  The result is \<open>None\<close> when
  the loop of \<open>chunkText\<close> does not return.
\<close>

definition processDocument ::
  "(string \<Rightarrow> string) \<Rightarrow> int \<Rightarrow> int \<Rightarrow> scrapedDoc \<Rightarrow> chunk list option" where
  "processDocument md5 chunkSize chunkOverlap d =
     (if sd_content d = [] \<or> length (sd_content d) < 50 then Some []
      else (case chunkText chunkSize chunkOverlap (sd_content d) of
              None \<Rightarrow> None
            | Some chunks \<Rightarrow>
                Some (map (\<lambda>(index, chunkContent).
                             makeChunk md5 d (generateId md5 (sd_url d)) (length chunks) index chunkContent)
                          (enumerate 0 chunks))))"

section \<open>Embedding service\<close>

datatype error =
    ENOENT
  | IOError
  | ParseError
  | EmbeddingError
  | DimensionMismatch
  | ChatError
  | TypeError

text \<open>
  JavaScript numbers are modelled by real numbers.  \<open>cosineSimilarity\<close> throws on
  vectors of different length, accumulates the dot product and both squared norms in one
  pass, and answers 0 when a squared norm is 0.
\<close>

definition cosineSimilarity :: "real list \<Rightarrow> real list \<Rightarrow> error + real" where
  "cosineSimilarity a b =
     (if length a \<noteq> length b then Inl DimensionMismatch
      else (case foldl (\<lambda>(dotProduct, normA, normB) (x, y).
                          (dotProduct + x * y, normA + x * x, normB + y * y))
                       (0, 0, 0) (zip a b) of
              (dotProduct, normA, normB) \<Rightarrow>
                if normA = 0 \<or> normB = 0 then Inr 0
                else Inr (dotProduct / (sqrt normA * sqrt normB))))"

section \<open>Vector store\<close>

text \<open>
  The store object, the snapshot file and the file system.  A snapshot is what
  \<open>JSON.parse\<close> gives back: each key may be missing.  The time stamp and the format
  version that \<open>save\<close> writes are only logged on load and are left out.  The file is
  absent, unreadable, not a JSON object, or a snapshot; \<open>writable\<close> says whether
  \<open>mkdir\<close> and \<open>writeFile\<close> succeed.
\<close>

record 'a vectorStore =
  documents :: "'a document_scheme list"
  embeddings :: "real list list"
  isIndexed :: bool
  initialized :: bool

record 'a snapshot =
  snap_documents :: "'a document_scheme list option"
  snap_embeddings :: "real list list option"
  snap_isIndexed :: "bool option"

datatype 'a storeFile = Absent | Unreadable | Malformed | Snapshot "'a snapshot"

record 'a disk =
  storeFile :: "'a storeFile"
  writable :: bool

definition newStore :: "'a vectorStore" where
  "newStore = \<lparr> documents = [], embeddings = [], isIndexed = False, initialized = False \<rparr>"

definition save :: "'a vectorStore \<Rightarrow> 'a disk \<Rightarrow> (error + unit) \<times> 'a disk" where
  "save st dk =
     (if writable dk
      then (Inr (), dk\<lparr> storeFile := Snapshot \<lparr> snap_documents = Some (documents st),
                                             snap_embeddings = Some (embeddings st),
                                             snap_isIndexed = Some (isIndexed st) \<rparr> \<rparr>)
      else (Inl IOError, dk))"

definition orElse :: "'b option \<Rightarrow> 'b \<Rightarrow> 'b" where
  "orElse v d = (case v of None \<Rightarrow> d | Some x \<Rightarrow> x)"

text \<open>\<open>load\<close> rethrows every failure, the absent file included.\<close>

definition load :: "'a vectorStore \<Rightarrow> 'a disk \<Rightarrow> (error + unit) \<times> 'a vectorStore" where
  "load st dk =
     (case storeFile dk of
        Absent \<Rightarrow> (Inl ENOENT, st)
      | Unreadable \<Rightarrow> (Inl IOError, st)
      | Malformed \<Rightarrow> (Inl ParseError, st)
      | Snapshot data \<Rightarrow>
          (Inr (), st\<lparr> documents := orElse (snap_documents data) [],
                       embeddings := orElse (snap_embeddings data) [],
                       isIndexed := (snap_isIndexed data = Some True) \<rparr>))"

text \<open>\<open>initialize\<close> catches whatever \<open>load\<close> throws and never fails.\<close>

definition initialize :: "'a vectorStore \<Rightarrow> 'a disk \<Rightarrow> 'a vectorStore" where
  "initialize st dk =
     (if initialized st then st
      else (case load st dk of
              (Inr u, st') \<Rightarrow> st'\<lparr> initialized := True \<rparr>
            | (Inl e, st') \<Rightarrow> st'\<lparr> initialized := True \<rparr>))"

text \<open>
  The embedding model is the parameter \<open>generateEmbedding\<close>; it may fail.  The loop of
  \<open>indexDocuments\<close> pushes a document and its embedding together, after the embedding
  has been computed, and stops at the first failure, keeping what was pushed before.
\<close>

fun indexLoop ::
  "(string \<Rightarrow> error + real list) \<Rightarrow> 'a document_scheme list \<Rightarrow> 'a vectorStore \<Rightarrow>
   (error + unit) \<times> 'a vectorStore" where
  "indexLoop generateEmbedding [] st = (Inr (), st)"
| "indexLoop generateEmbedding (doc # rest) st =
     (case generateEmbedding (title doc @ ''. '' @ content doc) of
        Inl e \<Rightarrow> (Inl e, st)
      | Inr embedding \<Rightarrow>
          indexLoop generateEmbedding rest (st\<lparr> documents := documents st @ [doc],
                                     embeddings := embeddings st @ [embedding] \<rparr>))"

definition indexDocuments ::
  "(string \<Rightarrow> error + real list) \<Rightarrow> 'a document_scheme list \<Rightarrow> 'a vectorStore \<Rightarrow> 'a disk \<Rightarrow>
   (error + unit) \<times> 'a vectorStore \<times> 'a disk" where
  "indexDocuments generateEmbedding docs st dk =
     (let st1 = initialize st dk;
          existingIds = set (map id_doc (documents st1));
          newDocs = filter (\<lambda>doc. id_doc doc \<notin> existingIds) docs
      in if length newDocs = 0 then (Inr (), st1, dk)
         else (case indexLoop generateEmbedding newDocs st1 of
                 (Inl e, st2) \<Rightarrow> (Inl e, st2, dk)
               | (Inr u, st2) \<Rightarrow>
                   (case save (st2\<lparr> isIndexed := True \<rparr>) dk of
                      (r, dk') \<Rightarrow> (r, st2\<lparr> isIndexed := True \<rparr>, dk'))))"

text \<open>
  \<open>Array.prototype.sort\<close> with a comparator is a stable sort: \<open>x\<close> stays before \<open>y\<close>
  unless the comparator is positive on \<open>(x, y)\<close>.  It is modelled by an insertion sort
  that inserts from the right.  \<open>xs.slice(0, e)\<close> counts a negative \<open>e\<close> from the end.
\<close>

fun insertBy :: "('b \<Rightarrow> 'b \<Rightarrow> real) \<Rightarrow> 'b \<Rightarrow> 'b list \<Rightarrow> 'b list" where
  "insertBy cmp x [] = [x]"
| "insertBy cmp x (y # ys) = (if cmp x y \<le> 0 then x # y # ys else y # insertBy cmp x ys)"

definition sortBy :: "('b \<Rightarrow> 'b \<Rightarrow> real) \<Rightarrow> 'b list \<Rightarrow> 'b list" where
  "sortBy cmp xs = foldr (insertBy cmp) xs []"

definition slice0 :: "'b list \<Rightarrow> int \<Rightarrow> 'b list" where
  "slice0 xs e =
     (let n = int (length xs);
          k = (if e < 0 then max (n + e) 0 else min e n)
      in take (nat k) xs)"

text \<open>
  The score of every stored embedding against the query embedding, with its index; the
  first dimension mismatch is thrown.
\<close>

fun scoreAll :: "real list \<Rightarrow> real list list \<Rightarrow> nat \<Rightarrow> error + (nat \<times> real) list" where
  "scoreAll queryEmbedding [] index = Inr []"
| "scoreAll queryEmbedding (embedding # rest) index =
     (case cosineSimilarity queryEmbedding embedding of
        Inl e \<Rightarrow> Inl e
      | Inr s \<Rightarrow>
          (case scoreAll queryEmbedding rest (Suc index) of
             Inl e \<Rightarrow> Inl e
           | Inr scores \<Rightarrow> Inr ((index, s) # scores)))"

definition topResults :: "(nat \<times> real) list \<Rightarrow> int \<Rightarrow> (nat \<times> real) list" where
  "topResults scores topK = slice0 (sortBy (\<lambda>a b. snd b - snd a) scores) topK"

text \<open>
  A search result pairs a score with \<open>documents[index]\<close>, which is \<open>undefined\<close>
  (here \<open>None\<close>) when the index is beyond the document list.
\<close>

record 'a searchResult =
  document :: "'a document_scheme option"
  score :: real

definition nthOpt :: "'b list \<Rightarrow> nat \<Rightarrow> 'b option" where
  "nthOpt xs i = (if i < length xs then Some (xs ! i) else None)"

definition search ::
  "(string \<Rightarrow> error + real list) \<Rightarrow> string \<Rightarrow> int \<Rightarrow> 'a vectorStore \<Rightarrow> 'a disk \<Rightarrow>
   (error + 'a searchResult list) \<times> 'a vectorStore" where
  "search generateEmbedding q topK st dk =
     (let st1 = initialize st dk
      in if \<not> isIndexed st1 \<or> length (documents st1) = 0 then (Inr [], st1)
         else (case generateEmbedding q of
                 Inl e \<Rightarrow> (Inl e, st1)
               | Inr queryEmbedding \<Rightarrow>
                   (case scoreAll queryEmbedding (embeddings st1) 0 of
                      Inl e \<Rightarrow> (Inl e, st1)
                    | Inr scores \<Rightarrow>
                        (Inr (map (\<lambda>result. \<lparr> document = nthOpt (documents st1) (fst result),
                                                score = snd result \<rparr>)
                                  (topResults scores topK)), st1))))"

text \<open>
  \<open>findIndex\<close> gives the first matching position, \<open>splice(index, 1)\<close> removes the
  element there and does nothing beyond the end of the list.
\<close>

fun findIndex :: "('b \<Rightarrow> bool) \<Rightarrow> 'b list \<Rightarrow> nat option" where
  "findIndex P [] = None"
| "findIndex P (x # xs) = (if P x then Some 0 else map_option Suc (findIndex P xs))"

definition splice1 :: "nat \<Rightarrow> 'b list \<Rightarrow> 'b list" where
  "splice1 index xs = take index xs @ drop (Suc index) xs"

definition removeDocument ::
  "string \<Rightarrow> 'a vectorStore \<Rightarrow> 'a disk \<Rightarrow> (error + bool) \<times> 'a vectorStore \<times> 'a disk" where
  "removeDocument ident st dk =
     (case findIndex (\<lambda>doc. id_doc doc = ident) (documents st) of
        None \<Rightarrow> (Inr False, st, dk)
      | Some index \<Rightarrow>
          (let st' = st\<lparr> documents := splice1 index (documents st),
                         embeddings := splice1 index (embeddings st) \<rparr>
           in case save st' dk of
                (Inl e, dk') \<Rightarrow> (Inl e, st', dk')
              | (Inr u, dk') \<Rightarrow> (Inr True, st', dk')))"


definition totalDocuments :: "'a vectorStore \<Rightarrow> nat" where
  "totalDocuments st = length (documents st)"

section \<open>Chat backend (Ollama service)\<close>







section \<open>RAG pipeline\<close>

subsection \<open>Casual-conversation patterns\<close>












subsection \<open>The query\<close>

record options =
  topK :: "int option"
  includeThinking :: bool














section \<open>Store invariant\<close>

text \<open>
  The index correspondence of the data model: as many embeddings as documents, in the
  store and in a snapshot file.
\<close>

definition storeInv :: "'a vectorStore \<Rightarrow> bool" where
  "storeInv st \<longleftrightarrow> length (documents st) = length (embeddings st)"


section \<open>Concrete inputs\<close>

definition docA :: document where
  "docA = \<lparr> id_doc = ''prod-001'', title = ''Premium Wireless Headphones'',
             content = ''40-hour battery life'', category = ''products'', url = None \<rparr>"

definition docB :: document where
  "docB = \<lparr> id_doc = ''policy-001'', title = ''Return Policy'',
             content = ''30-day returns'', category = ''policies'', url = None \<rparr>"

definition docC :: document where
  "docC = \<lparr> id_doc = ''faq-001'', title = ''Shipping'',
             content = ''Orders ship in two days'', category = ''faq'', url = None \<rparr>"

definition storeAB :: "unit vectorStore" where
  "storeAB = \<lparr> documents = [docA, docB], embeddings = [[1, 0], [0, 1]],
                isIndexed = True, initialized = True \<rparr>"

definition diskAbsent :: "unit disk" where
  "diskAbsent = \<lparr> storeFile = Absent, writable = True \<rparr>"

definition diskMalformed :: "unit disk" where
  "diskMalformed = \<lparr> storeFile = Malformed, writable = True \<rparr>"

definition diskReadOnly :: "unit disk" where
  "diskReadOnly = \<lparr> storeFile = Absent, writable = False \<rparr>"


definition embedUnit :: "string \<Rightarrow> error + real list" where
  "embedUnit t = Inr [1, 0]"

definition embedDown :: "string \<Rightarrow> error + real list" where
  "embedDown t = Inl EmbeddingError"

text \<open>A store with two documents and a single embedding.\<close>

definition storeLopsided :: "unit vectorStore" where
  "storeLopsided = \<lparr> documents = [docA, docB], embeddings = [[1, 0]],
                      isIndexed = True, initialized = True \<rparr>"

section \<open>Ranking order\<close>







text \<open>A page text as fetched, and the scraped document made from it.\<close>

definition rawNote :: string where
  "rawNote = ''  Our  Premium Wireless Headphones feature\<newline>\<newline> 40-hour battery life.\<newline>''"

definition scrapedNote :: scrapedDoc where
  "scrapedNote =
     \<lparr> sd_title = ''Headphones'',
       sd_content = ''Our Premium Wireless Headphones feature 40-hour battery life.'',
       sd_url = ''https://example.com/headphones'', sd_scrapedAt = ''2024-01-01T00:00:00.000Z'',
       sd_description = [] \<rparr>"

text \<open>A stand-in for the digest where a closed term needs one.\<close>

definition plainDigest :: "string \<Rightarrow> string" where
  "plainDigest t = t"


definition diskStoredC :: "unit disk" where
  "diskStoredC =
     \<lparr> storeFile = Snapshot \<lparr> snap_documents = Some [docC],
                              snap_embeddings = Some [[1, 0]],
                              snap_isIndexed = Some True \<rparr>,
       writable = True \<rparr>"










section \<open>Properties of the document processor\<close>

lemma lastIndexOf_range: "lastIndexOf s p = -1 \<or> 0 \<le> lastIndexOf s p"
  by (induction s) (auto simp: Let_def)

lemma lastIndexOf_found: "0 \<le> lastIndexOf s p \<Longrightarrow> set p \<subseteq> set s"
proof (induction s)
  case Nil
  then show ?case by (simp split: if_splits)
next
  case (Cons c cs)
  show ?case
  proof (cases "0 \<le> lastIndexOf cs p")
    case True
    with Cons.IH show ?thesis by auto
  next
    case False
    with Cons.prems have "prefix p (c # cs)" by (simp add: Let_def split: if_splits)
    then show ?thesis by (rule set_mono_prefix)
  qed
qed

lemma lastIndexOf_absent: "x \<in> set p \<Longrightarrow> x \<notin> set s \<Longrightarrow> lastIndexOf s p = -1"
  using lastIndexOf_range [of s p] lastIndexOf_found [of s p] by auto

lemma dropWhile_none: "\<forall>c\<in>set s. \<not> P c \<Longrightarrow> dropWhile P s = s"
  by (cases s) auto

lemma trim_no_white_space: "\<forall>c\<in>set s. \<not> isWhiteSpace c \<Longrightarrow> trim s = s"
  unfolding trim_def by (simp add: dropWhile_none)

text \<open>
  On a text longer than \<open>chunkSize\<close> with no white space in it, the loop stops after
  its first round: the next start \<open>chunkSize - chunkOverlap\<close> is not beyond the length
  \<open>chunkSize\<close> of the chunk just pushed, so the exit test fires and everything after the
  first window is left out.
\<close>

lemma chunkText_stops_after_first_window:
  assumes "chunkSize < int (length text)" "0 < chunkSize" "0 \<le> chunkOverlap"
    and "\<forall>c\<in>set text. \<not> isWhiteSpace c"
  shows "chunkText chunkSize chunkOverlap text = Some [take (nat chunkSize) text]"
proof -
  let ?w = "take (nat chunkSize) text"
  have sub: "substring text 0 chunkSize = ?w"
    using assms by (simp add: substring_def Let_def min_def max_def)
  have nows: "\<forall>c\<in>set ?w. \<not> isWhiteSpace c"
    using assms(4) by (meson in_set_takeD)
  have ws: "isWhiteSpace CHR '' ''" "isWhiteSpace (CHR 0x0A)"
    by (simp_all add: isWhiteSpace_def)
  have l: "lastSentenceEnd ?w = -1"
  proof -
    have "lastIndexOf ?w p = -1" if "CHR '' '' \<in> set p \<or> CHR 0x0A \<in> set p" for p
      using that nows ws by (auto intro: lastIndexOf_absent)
    then show ?thesis by (simp add: lastSentenceEnd_def)
  qed
  have we: "windowEnd chunkSize text 0 = chunkSize"
    using assms(1,2) by (simp add: windowEnd_def sub l Let_def)
  have tr: "trim ?w = ?w" using nows by (rule trim_no_white_space)
  have len: "int (length ?w) = chunkSize" using assms(1,2) by simp
  have ne: "?w \<noteq> []" using assms(1,2) by auto
  show ?thesis
    using assms(1,2,3) ne len
    by (simp add: chunkText_def chunkLoop.simps [of _ _ _ 0] we sub tr Let_def)
qed

text \<open>
  C1 (the chunks of a text longer than \<open>chunkSize\<close> cover the whole text).  With the
  default sizes 800 and 200, a text of 1000 letters \<open>a\<close> gives one chunk, its first 800
  letters: the last 200 characters are in no chunk.
\<close>

theorem chunkText_drops_tail:
  "chunkText defaultChunkSize defaultChunkOverlap (replicate 1000 CHR ''a'')
     = Some [replicate 800 CHR ''a'']"
  using chunkText_stops_after_first_window [of 800 "replicate 1000 CHR ''a''" 200]
  by (simp add: defaultChunkSize_def defaultChunkOverlap_def isWhiteSpace_def)

lemma trim_ends:
  "trim s = [] \<or> (\<not> isWhiteSpace (hd (trim s)) \<and> \<not> isWhiteSpace (last (trim s)))"
proof (cases "dropWhile isWhiteSpace s = []")
  case True
  then have "trim s = []" unfolding trim_def by (auto dest: set_dropWhileD)
  then show ?thesis by simp
next
  case False
  let ?a = "dropWhile isWhiteSpace s"
  let ?c = "dropWhile isWhiteSpace (rev ?a)"
  from False have ha: "\<not> isWhiteSpace (hd ?a)" by (rule hd_dropWhile)
  from False have "hd ?a \<in> set (rev ?a)" by simp
  with ha have cne: "?c \<noteq> []" by (auto simp: dropWhile_eq_Nil_conv)
  then have hc: "\<not> isWhiteSpace (hd ?c)" by (rule hd_dropWhile)
  have "rev ?a = takeWhile isWhiteSpace (rev ?a) @ ?c" by simp
  then have "last (rev ?a) = last ?c" using cne by (metis last_appendR)
  with False have lc: "last ?c = hd ?a" by (simp add: last_rev)
  from cne hc lc ha show ?thesis
    by (simp add: trim_def hd_rev last_rev)
qed

lemma trim_fixed:
  assumes "s = [] \<or> (\<not> isWhiteSpace (hd s) \<and> \<not> isWhiteSpace (last s))"
  shows "trim s = s"
proof (cases "s = []")
  case True
  then show ?thesis by (simp add: trim_def)
next
  case False
  with assms have h: "\<not> isWhiteSpace (hd s)" "\<not> isWhiteSpace (last s)" by auto
  from False h(1) have a: "dropWhile isWhiteSpace s = s" by (cases s) auto
  from False h(2) have "dropWhile isWhiteSpace (rev s) = rev s"
    by (cases "rev s") (auto simp: last_rev hd_rev [symmetric])
  with a show ?thesis by (simp add: trim_def)
qed

lemma trim_trim: "trim (trim s) = trim s"
  using trim_ends [of s] by (rule trim_fixed)

lemma trim_cleanText: "trim (cleanText t) = cleanText t"
  by (simp add: cleanText_def trim_trim)

lemma processDocument_one_chunk:
  assumes "50 \<le> length (sd_content d)" "int (length (sd_content d)) \<le> chunkSize"
  shows "processDocument md5 chunkSize chunkOverlap d =
           Some [makeChunk md5 d (generateId md5 (sd_url d)) 1 0 (sd_content d)]"
  using assms by (auto simp: processDocument_def chunkText_def)

text \<open>
  C7 (a document of 50 to \<open>chunkSize\<close> characters gives exactly one chunk, equal to the
  trimmed content).  The documents that reach \<open>processDocument\<close> come from the scraper,
  whose \<open>cleanText\<close> ends with a trim.  For each of them the result is one chunk, number
  0 of 1, built from the trimmed content.
\<close>

theorem processDocument_scraped_short:
  assumes "sd_content d = cleanText raw"
    and "50 \<le> length (sd_content d)"
    and "int (length (sd_content d)) \<le> chunkSize"
  shows "\<exists>c. processDocument md5 chunkSize chunkOverlap d = Some [c] \<and>
             c = makeChunk md5 d (generateId md5 (sd_url d)) 1 0 (trim (sd_content d)) \<and>
             content c = trim (sd_content d) \<and> chunk c = 0 \<and> totalChunks c = 1"
proof -
  from assms(1) have "trim (sd_content d) = sd_content d" by (simp add: trim_cleanText)
  with processDocument_one_chunk [OF assms(2,3), of md5 chunkOverlap] show ?thesis
    by (simp add: makeChunk_def)
qed

text \<open>
  A page text with blanks at both ends and a blank line inside, cleaned to 61 characters.
\<close>

theorem processDocument_scraped_short_witness:
  "sd_content scrapedNote = cleanText rawNote \<and>
   50 \<le> length (sd_content scrapedNote) \<and>
   int (length (sd_content scrapedNote)) \<le> defaultChunkSize \<and>
   (\<exists>c. processDocument plainDigest defaultChunkSize defaultChunkOverlap scrapedNote = Some [c] \<and>
        content c = ''Our Premium Wireless Headphones feature 40-hour battery life.'')"
proof -
  have h1: "sd_content scrapedNote = cleanText rawNote"
    by (simp add: scrapedNote_def rawNote_def cleanText_def trim_def isWhiteSpace_def)
  have h2: "50 \<le> length (sd_content scrapedNote)" by (simp add: scrapedNote_def)
  have h3: "int (length (sd_content scrapedNote)) \<le> defaultChunkSize"
    by (simp add: scrapedNote_def defaultChunkSize_def)
  have t: "trim (sd_content scrapedNote) = ''Our Premium Wireless Headphones feature 40-hour battery life.''"
    by (simp add: scrapedNote_def trim_def isWhiteSpace_def)
  from processDocument_scraped_short [OF h1 h2 h3, of plainDigest defaultChunkOverlap] h1 h2 h3 t
  show ?thesis by auto
qed

section \<open>Properties of the vector store\<close>



lemma load_failure_keeps_store: "fst (load st dk) = Inl e \<Longrightarrow> snd (load st dk) = st"
  by (auto simp: load_def split: storeFile.splits)


lemma initialize_initialized: "initialized (initialize st dk)"
  by (auto simp: initialize_def split: prod.splits sum.splits)

lemma initialize_idem: "initialized st \<Longrightarrow> initialize st dk = st"
  by (simp add: initialize_def)


lemma indexLoop_initialized:
  "initialized (snd (indexLoop ge ds st)) = initialized st"
  by (induction ds arbitrary: st) (auto split: sum.splits)

lemma indexLoop_zip:
  "storeInv st \<Longrightarrow>
   prefix (zip (documents st) (embeddings st))
          (zip (documents (snd (indexLoop ge ds st))) (embeddings (snd (indexLoop ge ds st))))"
proof (induction ds arbitrary: st)
  case Nil
  then show ?case by simp
next
  case (Cons d ds)
  show ?case
  proof (cases "ge (title d @ ''. '' @ content d)")
    case (Inl e)
    then show ?thesis by simp
  next
    case (Inr v)
    let ?st = "st\<lparr> documents := documents st @ [d], embeddings := embeddings st @ [v] \<rparr>"
    have inv: "storeInv ?st" using Cons.prems by (simp add: storeInv_def)
    have "prefix (zip (documents st) (embeddings st)) (zip (documents ?st) (embeddings ?st))"
      using Cons.prems by (simp add: storeInv_def)
    with Cons.IH [OF inv] Inr show ?thesis
      by (auto intro: prefix_order.trans)
  qed
qed


lemma splice1_length: "index < length xs \<Longrightarrow> Suc (length (splice1 index xs)) = length xs"
  by (auto simp: splice1_def)


lemma splice1_zip:
  "length xs = length ys \<Longrightarrow> zip (splice1 index xs) (splice1 index ys) = splice1 index (zip xs ys)"
  by (simp add: splice1_def take_zip drop_zip)

lemma findIndex_Some:
  "findIndex P xs = Some i \<Longrightarrow> i < length xs \<and> P (xs ! i) \<and> (\<forall>j<i. \<not> P (xs ! j))"
proof (induction xs arbitrary: i)
  case Nil
  then show ?case by simp
next
  case (Cons x xs)
  show ?case
  proof (cases "P x")
    case True
    with Cons.prems show ?thesis by simp
  next
    case False
    with Cons.prems obtain k where k: "findIndex P xs = Some k" "i = Suc k" by auto
    from Cons.IH [OF k(1)] False k(2) show ?thesis
      by (auto simp: nth_Cons split: nat.splits)
  qed
qed

lemma findIndex_None: "findIndex P xs = None \<longleftrightarrow> (\<forall>x\<in>set xs. \<not> P x)"
  by (induction xs) auto


lemma removeDocument_absent:
  "findIndex (\<lambda>doc. id_doc doc = ident) (documents st) = None \<Longrightarrow>
   removeDocument ident st dk = (Inr False, st, dk)"
  by (simp add: removeDocument_def)

lemma removeDocument_present:
  "findIndex (\<lambda>doc. id_doc doc = ident) (documents st) = Some i \<Longrightarrow>
   removeDocument ident st dk =
     (if writable dk then Inr True else Inl IOError,
      st\<lparr> documents := splice1 i (documents st), embeddings := splice1 i (embeddings st) \<rparr>,
      snd (save (st\<lparr> documents := splice1 i (documents st), embeddings := splice1 i (embeddings st) \<rparr>) dk))"
  by (simp add: removeDocument_def save_def Let_def)




lemma findIndex_member:
  "(\<exists>i. findIndex (\<lambda>doc. id_doc doc = ident) ds = Some i) \<longleftrightarrow> ident \<in> set (map id_doc ds)"
  by (induction ds) auto

lemma indexDocuments_known:
  "id_doc c \<in> set (map id_doc (documents (initialize st dk))) \<Longrightarrow>
   indexDocuments ge [c] st dk = (Inr (), initialize st dk, dk)"
  by (simp add: indexDocuments_def Let_def)

lemma indexDocuments_new:
  "id_doc c \<notin> set (map id_doc (documents (initialize st dk))) \<Longrightarrow>
   indexDocuments ge [c] st dk =
     (case ge (title c @ ''. '' @ content c) of
        Inl e \<Rightarrow> (Inl e, initialize st dk, dk)
      | Inr v \<Rightarrow>
          (fst (save ((initialize st dk)\<lparr> documents := documents (initialize st dk) @ [c],
                                             embeddings := embeddings (initialize st dk) @ [v],
                                             isIndexed := True \<rparr>) dk),
           (initialize st dk)\<lparr> documents := documents (initialize st dk) @ [c],
                                   embeddings := embeddings (initialize st dk) @ [v],
                                   isIndexed := True \<rparr>,
           snd (save ((initialize st dk)\<lparr> documents := documents (initialize st dk) @ [c],
                                             embeddings := embeddings (initialize st dk) @ [v],
                                             isIndexed := True \<rparr>) dk)))"
  by (simp add: indexDocuments_def Let_def split: sum.splits prod.splits)

lemma indexDocuments_single_facts:
  "initialized (fst (snd (indexDocuments ge1 [c] st dk))) \<and>
   length (documents (initialize st dk)) \<le> length (documents (fst (snd (indexDocuments ge1 [c] st dk)))) \<and>
   length (documents (fst (snd (indexDocuments ge1 [c] st dk)))) \<le> length (documents (initialize st dk)) + 1 \<and>
   (fst (indexDocuments ge1 [c] st dk) = Inr () \<longrightarrow>
      id_doc c \<in> set (map id_doc (documents (fst (snd (indexDocuments ge1 [c] st dk)))))) \<and>
   (length (documents (initialize st dk)) < length (documents (fst (snd (indexDocuments ge1 [c] st dk)))) \<longrightarrow>
      id_doc c \<in> set (map id_doc (documents (fst (snd (indexDocuments ge1 [c] st dk))))))"
proof (cases "id_doc c \<in> set (map id_doc (documents (initialize st dk)))")
  case True
  then show ?thesis
    by (simp add: indexDocuments_known initialize_initialized)
next
  case False
  show ?thesis
  proof (cases "ge1 (title c @ ''. '' @ content c)")
    case (Inl e)
    with False show ?thesis
      by (simp add: indexDocuments_new initialize_initialized)
  next
    case (Inr v)
    with False show ?thesis
      by (simp add: indexDocuments_new initialize_initialized)
  qed
qed



lemma save_result: "fst (save st dk) = (if writable dk then Inr () else Inl IOError)"
  by (simp add: save_def)
















text \<open>
  C8 (at initialization only the absent file is swallowed; any other failure of
  \<open>load\<close> is surfaced).  A snapshot file that does not parse makes \<open>load\<close> throw, and
  \<open>initialize\<close> returns normally with the empty store marked initialized: the handler of
  \<open>initialize\<close> catches every failure alike.  The last part of the claim holds, see
  \<open>load_failure_keeps_store\<close>.
\<close>

theorem initialize_swallows_parse_failure:
  "fst (load (newStore :: unit vectorStore) diskMalformed) = Inl ParseError \<and>
   initialize newStore diskMalformed = (newStore :: unit vectorStore)\<lparr> initialized := True \<rparr>"
  by (simp add: load_def initialize_def newStore_def diskMalformed_def)

lemma reingestion_known:
  "(id_doc c \<in> set (map id_doc (documents (initialize st dk))) \<longrightarrow>
      indexDocuments ge1 [c] st dk = (Inr (), initialize st dk, dk))"
  by (simp add: indexDocuments_known)

lemma reingestion_failed:
  "(id_doc c \<notin> set (map id_doc (documents (initialize st dk))) \<and>
    ge1 (title c @ ''. '' @ content c) = Inl e \<longrightarrow>
      indexDocuments ge1 [c] st dk = (Inl e, initialize st dk, dk))"
  by (simp add: indexDocuments_new)

lemma reingestion_two_calls:
  fixes c :: "'a document_scheme" and st :: "'a vectorStore" and dk :: "'a disk"
  shows
  "(let r1 = indexDocuments ge1 [c] st dk;
        r2 = indexDocuments ge2 [c] (fst (snd r1)) (snd (snd r1))
    in totalDocuments (initialize st dk) \<le> totalDocuments (fst (snd r1)) \<and>
       totalDocuments (fst (snd r1)) \<le> totalDocuments (fst (snd r2)) \<and>
       totalDocuments (fst (snd r2)) \<le> totalDocuments (initialize st dk) + 1 \<and>
       (fst r1 = Inr () \<longrightarrow> r2 = (Inr (), snd r1)) \<and>
       (id_doc c \<in> set (map id_doc (documents (fst (snd r1)))) \<longrightarrow> r2 = (Inr (), snd r1)))"
proof -
  let ?r1 = "indexDocuments ge1 [c] st dk"
  let ?st1 = "fst (snd ?r1)"
  let ?dk1 = "snd (snd ?r1)"
  let ?r2 = "indexDocuments ge2 [c] ?st1 ?dk1"
  note f1 = indexDocuments_single_facts [of ge1 c st dk]
  note f2 = indexDocuments_single_facts [of ge2 c ?st1 ?dk1]
  have ini: "initialize ?st1 ?dk1 = ?st1"
    using f1 by (simp add: initialize_idem)
  have known: "?r2 = (Inr (), snd ?r1)" if "id_doc c \<in> set (map id_doc (documents ?st1))"
    using that ini indexDocuments_known [of c ?st1 ?dk1 ge2] by simp
  have twice: "totalDocuments (fst (snd ?r2)) \<le> totalDocuments (initialize st dk) + 1"
  proof (cases "id_doc c \<in> set (map id_doc (documents ?st1))")
    case True
    with known f1 show ?thesis by (simp add: totalDocuments_def)
  next
    case False
    with f1 have "length (documents ?st1) = length (documents (initialize st dk))"
      by auto
    with f2 ini show ?thesis by (simp add: totalDocuments_def)
  qed
  from f1 f2 ini known twice show ?thesis
    by (simp add: Let_def totalDocuments_def)
qed

lemma reingestion_new:
  fixes c :: "'a document_scheme" and st :: "'a vectorStore" and dk :: "'a disk"
  shows
  "(id_doc c \<notin> set (map id_doc (documents (initialize st dk))) \<and>
    ge1 (title c @ ''. '' @ content c) = Inr v \<longrightarrow>
      fst (snd (indexDocuments ge1 [c] st dk))
        = (initialize st dk)\<lparr> documents := documents (initialize st dk) @ [c],
                                 embeddings := embeddings (initialize st dk) @ [v],
                                 isIndexed := True \<rparr> \<and>
      fst (indexDocuments ge1 [c] st dk) = (if writable dk then Inr () else Inl IOError) \<and>
      snd (snd (indexDocuments ge1 [c] st dk)) = snd (save (fst (snd (indexDocuments ge1 [c] st dk))) dk) \<and>
      totalDocuments (fst (snd (indexDocuments ge1 [c] st dk))) = totalDocuments (initialize st dk) + 1 \<and>
      indexDocuments ge2 [c] (fst (snd (indexDocuments ge1 [c] st dk))) (snd (snd (indexDocuments ge1 [c] st dk)))
        = (Inr (), snd (indexDocuments ge1 [c] st dk)) \<and>
      totalDocuments (fst (snd (indexDocuments ge2 [c] (fst (snd (indexDocuments ge1 [c] st dk))) (snd (snd (indexDocuments ge1 [c] st dk))))))
        = totalDocuments (initialize st dk) + 1)"
proof (intro impI)
  assume a: "id_doc c \<notin> set (map id_doc (documents (initialize st dk))) \<and>
    ge1 (title c @ ''. '' @ content c) = Inr v"
  let ?st1 = "(initialize st dk)\<lparr> documents := documents (initialize st dk) @ [c],
                                 embeddings := embeddings (initialize st dk) @ [v],
                                 isIndexed := True \<rparr>"
  from a have r1: "indexDocuments ge1 [c] st dk = (fst (save ?st1 dk), ?st1, snd (save ?st1 dk))"
    by (simp add: indexDocuments_new)
  have ini: "initialize ?st1 (snd (save ?st1 dk)) = ?st1"
    by (simp add: initialize_idem initialize_initialized)
  have r2: "indexDocuments ge2 [c] ?st1 (snd (save ?st1 dk)) = (Inr (), ?st1, snd (save ?st1 dk))"
    using indexDocuments_known [of c ?st1 "snd (save ?st1 dk)" ge2] ini by simp
  show "fst (snd (indexDocuments ge1 [c] st dk))
        = (initialize st dk)\<lparr> documents := documents (initialize st dk) @ [c],
                                 embeddings := embeddings (initialize st dk) @ [v],
                                 isIndexed := True \<rparr> \<and>
      fst (indexDocuments ge1 [c] st dk) = (if writable dk then Inr () else Inl IOError) \<and>
      snd (snd (indexDocuments ge1 [c] st dk)) = snd (save (fst (snd (indexDocuments ge1 [c] st dk))) dk) \<and>
      totalDocuments (fst (snd (indexDocuments ge1 [c] st dk))) = totalDocuments (initialize st dk) + 1 \<and>
      indexDocuments ge2 [c] (fst (snd (indexDocuments ge1 [c] st dk))) (snd (snd (indexDocuments ge1 [c] st dk)))
        = (Inr (), snd (indexDocuments ge1 [c] st dk)) \<and>
      totalDocuments (fst (snd (indexDocuments ge2 [c] (fst (snd (indexDocuments ge1 [c] st dk))) (snd (snd (indexDocuments ge1 [c] st dk))))))
        = totalDocuments (initialize st dk) + 1"
    unfolding r1 using r2 by (simp add: save_result totalDocuments_def)
qed

text \<open>
  C5 (indexing the same chunk twice adds it once; a chunk whose id is in the store is
  skipped and not embedded again).  The store is the one \<open>initialize\<close> gives, which on a
  first call is the snapshot loaded from the disk.
  \<^item> If the id is in that store, the call returns it unchanged, writes nothing, and
    does not depend on the embedding function.
  \<^item> If the id is not there and the embedding succeeds, the call appends the chunk and
    its embedding, so the count goes up by exactly one; the result is that of the save.
    A second call with the same chunk then changes nothing, whatever its embedding
    function does, and the count stays one above the start.
  \<^item> If the id is not there and the embedding fails, the failure is returned and
    nothing is appended.
  \<^item> For any two calls in a row the count never goes down and rises by at most one.
\<close>

theorem reingestion_idempotent:
  fixes c :: "'a document_scheme" and st :: "'a vectorStore" and dk :: "'a disk"
  shows
  "(id_doc c \<in> set (map id_doc (documents (initialize st dk))) \<longrightarrow>
      indexDocuments ge1 [c] st dk = (Inr (), initialize st dk, dk)) \<and>
   (id_doc c \<notin> set (map id_doc (documents (initialize st dk))) \<and>
    ge1 (title c @ ''. '' @ content c) = Inr v \<longrightarrow>
      fst (snd (indexDocuments ge1 [c] st dk))
        = (initialize st dk)\<lparr> documents := documents (initialize st dk) @ [c],
                                 embeddings := embeddings (initialize st dk) @ [v],
                                 isIndexed := True \<rparr> \<and>
      fst (indexDocuments ge1 [c] st dk) = (if writable dk then Inr () else Inl IOError) \<and>
      snd (snd (indexDocuments ge1 [c] st dk)) = snd (save (fst (snd (indexDocuments ge1 [c] st dk))) dk) \<and>
      totalDocuments (fst (snd (indexDocuments ge1 [c] st dk))) = totalDocuments (initialize st dk) + 1 \<and>
      indexDocuments ge2 [c] (fst (snd (indexDocuments ge1 [c] st dk))) (snd (snd (indexDocuments ge1 [c] st dk)))
        = (Inr (), snd (indexDocuments ge1 [c] st dk)) \<and>
      totalDocuments (fst (snd (indexDocuments ge2 [c] (fst (snd (indexDocuments ge1 [c] st dk))) (snd (snd (indexDocuments ge1 [c] st dk))))))
        = totalDocuments (initialize st dk) + 1) \<and>
   (id_doc c \<notin> set (map id_doc (documents (initialize st dk))) \<and>
    ge1 (title c @ ''. '' @ content c) = Inl e \<longrightarrow>
      indexDocuments ge1 [c] st dk = (Inl e, initialize st dk, dk)) \<and>
   (let r1 = indexDocuments ge1 [c] st dk;
        r2 = indexDocuments ge2 [c] (fst (snd r1)) (snd (snd r1))
    in totalDocuments (initialize st dk) \<le> totalDocuments (fst (snd r1)) \<and>
       totalDocuments (fst (snd r1)) \<le> totalDocuments (fst (snd r2)) \<and>
       totalDocuments (fst (snd r2)) \<le> totalDocuments (initialize st dk) + 1 \<and>
       (fst r1 = Inr () \<longrightarrow> r2 = (Inr (), snd r1)) \<and>
       (id_doc c \<in> set (map id_doc (documents (fst (snd r1)))) \<longrightarrow> r2 = (Inr (), snd r1)))"
  by (intro conjI reingestion_known reingestion_new reingestion_failed reingestion_two_calls)

text \<open>
  A restart: the new store loads a snapshot that holds the chunk, and the call skips it
  even with an embedding function that always fails.  A cold start: the first call takes
  the count from 0 to 1, the second call leaves it at 1.  A failing embedding: nothing
  is added.
\<close>

theorem reingestion_idempotent_witness:
  "id_doc docC \<in> set (map id_doc (documents (initialize newStore diskStoredC))) \<and>
   indexDocuments embedDown [docC] newStore diskStoredC
     = (Inr (), initialize newStore diskStoredC, diskStoredC) \<and>
   documents (initialize newStore diskStoredC) = [docC] \<and>
   id_doc docC \<notin> set (map id_doc (documents (initialize (newStore :: unit vectorStore) diskAbsent))) \<and>
   embedUnit (title docC @ ''. '' @ content docC) = Inr [1, 0] \<and>
   totalDocuments (initialize (newStore :: unit vectorStore) diskAbsent) = 0 \<and>
   fst (indexDocuments embedUnit [docC] newStore diskAbsent) = Inr () \<and>
   documents (fst (snd (indexDocuments embedUnit [docC] newStore diskAbsent))) = [docC] \<and>
   embeddings (fst (snd (indexDocuments embedUnit [docC] newStore diskAbsent))) = [[1, 0]] \<and>
   totalDocuments (fst (snd (indexDocuments embedUnit [docC] newStore diskAbsent))) = 1 \<and>
   indexDocuments embedDown [docC]
       (fst (snd (indexDocuments embedUnit [docC] newStore diskAbsent)))
       (snd (snd (indexDocuments embedUnit [docC] newStore diskAbsent)))
     = (Inr (), snd (indexDocuments embedUnit [docC] newStore diskAbsent)) \<and>
   totalDocuments
       (fst (snd (indexDocuments embedDown [docC]
                    (fst (snd (indexDocuments embedUnit [docC] newStore diskAbsent)))
                    (snd (snd (indexDocuments embedUnit [docC] newStore diskAbsent)))))) = 1 \<and>
   embedDown (title docC @ ''. '' @ content docC) = Inl EmbeddingError \<and>
   indexDocuments embedDown [docC] newStore diskAbsent
     = (Inl EmbeddingError, initialize newStore diskAbsent, diskAbsent)"
proof -
  have i1: "documents (initialize newStore diskStoredC) = [docC]"
    by (simp add: initialize_def load_def newStore_def diskStoredC_def orElse_def)
  have h1: "id_doc docC \<in> set (map id_doc (documents (initialize newStore diskStoredC)))"
    by (simp add: i1)
  have i2: "documents (initialize (newStore :: unit vectorStore) diskAbsent) = []"
       "embeddings (initialize (newStore :: unit vectorStore) diskAbsent) = []"
    by (simp_all add: initialize_def load_def newStore_def diskAbsent_def)
  have h2: "id_doc docC \<notin> set (map id_doc (documents (initialize (newStore :: unit vectorStore) diskAbsent)))"
    by (simp add: i2)
  have h3: "embedUnit (title docC @ ''. '' @ content docC) = Inr [1, 0]"
    by (simp add: embedUnit_def)
  have h4: "embedDown (title docC @ ''. '' @ content docC) = Inl EmbeddingError"
    by (simp add: embedDown_def)
  have w: "writable diskAbsent" by (simp add: diskAbsent_def)
  have n0: "totalDocuments (initialize (newStore :: unit vectorStore) diskAbsent) = 0"
    by (simp add: totalDocuments_def i2)
  note a = reingestion_idempotent
             [where c = docC and st = "newStore :: unit vectorStore" and dk = diskStoredC
                and ?ge1.0 = embedDown and ?ge2.0 = embedDown and v = "[1, 0]"
                and e = EmbeddingError]
  note b = reingestion_idempotent
             [where c = docC and st = "newStore :: unit vectorStore" and dk = diskAbsent
                and ?ge1.0 = embedUnit and ?ge2.0 = embedDown and v = "[1, 0]"
                and e = EmbeddingError]
  note c = reingestion_idempotent
             [where c = docC and st = "newStore :: unit vectorStore" and dk = diskAbsent
                and ?ge1.0 = embedDown and ?ge2.0 = embedDown and v = "[1, 0]"
                and e = EmbeddingError]
  from a h1 have a': "indexDocuments embedDown [docC] newStore diskStoredC
     = (Inr (), initialize newStore diskStoredC, diskStoredC)"
    by blast
  from b h2 h3 have b0:
    "fst (snd (indexDocuments embedUnit [docC] newStore diskAbsent))
        = (initialize newStore diskAbsent)\<lparr> documents := documents (initialize newStore diskAbsent) @ [docC],
                                 embeddings := embeddings (initialize newStore diskAbsent) @ [[1, 0]],
                                 isIndexed := True \<rparr>"
    by blast
  from b h2 h3 have b3:
     "fst (indexDocuments embedUnit [docC] newStore diskAbsent) = (if writable diskAbsent then Inr () else Inl IOError) \<and>
      totalDocuments (fst (snd (indexDocuments embedUnit [docC] newStore diskAbsent))) = totalDocuments (initialize (newStore :: unit vectorStore) diskAbsent) + 1 \<and>
      indexDocuments embedDown [docC]
       (fst (snd (indexDocuments embedUnit [docC] newStore diskAbsent)))
       (snd (snd (indexDocuments embedUnit [docC] newStore diskAbsent)))
        = (Inr (), snd (indexDocuments embedUnit [docC] newStore diskAbsent)) \<and>
      totalDocuments (fst (snd (indexDocuments embedDown [docC]
                    (fst (snd (indexDocuments embedUnit [docC] newStore diskAbsent)))
                    (snd (snd (indexDocuments embedUnit [docC] newStore diskAbsent))))))
        = totalDocuments (initialize (newStore :: unit vectorStore) diskAbsent) + 1"
    by blast
  from c h2 h4 have c': "indexDocuments embedDown [docC] newStore diskAbsent
     = (Inl EmbeddingError, initialize newStore diskAbsent, diskAbsent)"
    by blast
  from b0 have b1: "documents (fst (snd (indexDocuments embedUnit [docC] newStore diskAbsent))) = [docC]"
    "embeddings (fst (snd (indexDocuments embedUnit [docC] newStore diskAbsent))) = [[1, 0]]"
    by (simp_all add: i2)
  from b3 n0 w have b2:
    "fst (indexDocuments embedUnit [docC] newStore diskAbsent) = Inr ()"
    "totalDocuments (fst (snd (indexDocuments embedUnit [docC] newStore diskAbsent))) = 1"
    "indexDocuments embedDown [docC]
       (fst (snd (indexDocuments embedUnit [docC] newStore diskAbsent)))
       (snd (snd (indexDocuments embedUnit [docC] newStore diskAbsent)))
     = (Inr (), snd (indexDocuments embedUnit [docC] newStore diskAbsent))"
    "totalDocuments
       (fst (snd (indexDocuments embedDown [docC]
                    (fst (snd (indexDocuments embedUnit [docC] newStore diskAbsent)))
                    (snd (snd (indexDocuments embedUnit [docC] newStore diskAbsent)))))) = 1"
    by simp_all
  from h1 h2 h3 h4 i1 n0 a' b1 b2 c' show ?thesis by (intro conjI)
qed

text \<open>
  C6 (removing a present id returns true and takes one document and one embedding
  away; removing an absent id returns false and changes nothing), as amended: for a
  store whose lists have equal length, the pair at the first matching index is taken out
  of both lists, and the result is true when the save that follows succeeds, the save
  error otherwise.
\<close>

theorem removeDocument_effect:
  "(storeInv st \<and> ident \<in> set (map id_doc (documents st)) \<longrightarrow>
      (\<exists>i. findIndex (\<lambda>doc. id_doc doc = ident) (documents st) = Some i \<and>
           i < length (documents st) \<and> id_doc (documents st ! i) = ident \<and>
           fst (removeDocument ident st dk) = (if writable dk then Inr True else Inl IOError) \<and>
           documents (fst (snd (removeDocument ident st dk))) = splice1 i (documents st) \<and>
           embeddings (fst (snd (removeDocument ident st dk))) = splice1 i (embeddings st) \<and>
           zip (documents (fst (snd (removeDocument ident st dk))))
               (embeddings (fst (snd (removeDocument ident st dk))))
             = splice1 i (zip (documents st) (embeddings st)) \<and>
           totalDocuments (fst (snd (removeDocument ident st dk))) + 1 = totalDocuments st \<and>
           length (embeddings (fst (snd (removeDocument ident st dk)))) + 1 = length (embeddings st))) \<and>
   (ident \<notin> set (map id_doc (documents st)) \<longrightarrow> removeDocument ident st dk = (Inr False, st, dk))"
proof (intro conjI impI)
  assume a: "storeInv st \<and> ident \<in> set (map id_doc (documents st))"
  then obtain i where i: "findIndex (\<lambda>doc. id_doc doc = ident) (documents st) = Some i"
    using findIndex_member [of ident "documents st"] by blast
  from findIndex_Some [OF i] have b: "i < length (documents st)" "id_doc (documents st ! i) = ident"
    by simp_all
  from a have len: "length (documents st) = length (embeddings st)" by (simp add: storeInv_def)
  with b have b': "i < length (embeddings st)" by simp
  note l1 = splice1_length [OF b(1)] splice1_length [OF b']
  note z = splice1_zip [OF len, of i]
  from i b l1 z show "\<exists>i. findIndex (\<lambda>doc. id_doc doc = ident) (documents st) = Some i \<and>
           i < length (documents st) \<and> id_doc (documents st ! i) = ident \<and>
           fst (removeDocument ident st dk) = (if writable dk then Inr True else Inl IOError) \<and>
           documents (fst (snd (removeDocument ident st dk))) = splice1 i (documents st) \<and>
           embeddings (fst (snd (removeDocument ident st dk))) = splice1 i (embeddings st) \<and>
           zip (documents (fst (snd (removeDocument ident st dk))))
               (embeddings (fst (snd (removeDocument ident st dk))))
             = splice1 i (zip (documents st) (embeddings st)) \<and>
           totalDocuments (fst (snd (removeDocument ident st dk))) + 1 = totalDocuments st \<and>
           length (embeddings (fst (snd (removeDocument ident st dk)))) + 1 = length (embeddings st)"
    by (simp add: removeDocument_present [OF i] totalDocuments_def)
next
  assume "ident \<notin> set (map id_doc (documents st))"
  then have "findIndex (\<lambda>doc. id_doc doc = ident) (documents st) = None"
    using findIndex_member [of ident "documents st"] by (cases "findIndex (\<lambda>doc. id_doc doc = ident) (documents st)") auto
  then show "removeDocument ident st dk = (Inr False, st, dk)"
    by (rule removeDocument_absent)
qed

text \<open>
  Removing the second of two documents, and an id that is not there.
\<close>

theorem removeDocument_effect_witness:
  "storeInv storeAB \<and> ''policy-001'' \<in> set (map id_doc (documents storeAB)) \<and>
   fst (removeDocument ''policy-001'' storeAB diskAbsent) = Inr True \<and>
   documents (fst (snd (removeDocument ''policy-001'' storeAB diskAbsent))) = [docA] \<and>
   embeddings (fst (snd (removeDocument ''policy-001'' storeAB diskAbsent))) = [[1, 0]] \<and>
   ''faq-001'' \<notin> set (map id_doc (documents storeAB)) \<and>
   removeDocument ''faq-001'' storeAB diskAbsent = (Inr False, storeAB, diskAbsent)"
proof -
  have h1: "storeInv storeAB \<and> ''policy-001'' \<in> set (map id_doc (documents storeAB))"
    by (simp add: storeInv_def storeAB_def docA_def docB_def)
  have h2: "''faq-001'' \<notin> set (map id_doc (documents storeAB))"
    by (simp add: storeAB_def docA_def docB_def)
  have i: "findIndex (\<lambda>doc. id_doc doc = ''policy-001'') (documents storeAB) = Some 1"
    by (simp add: storeAB_def docA_def docB_def)
  have s: "splice1 1 (documents storeAB) = [docA]" "splice1 1 (embeddings storeAB) = [[1, 0]]"
    by (simp_all add: splice1_def storeAB_def)
  have w: "writable diskAbsent" by (simp add: diskAbsent_def)
  from removeDocument_effect [of storeAB "''policy-001''" diskAbsent] h1 i s w
  have a: "fst (removeDocument ''policy-001'' storeAB diskAbsent) = Inr True \<and>
   documents (fst (snd (removeDocument ''policy-001'' storeAB diskAbsent))) = [docA] \<and>
   embeddings (fst (snd (removeDocument ''policy-001'' storeAB diskAbsent))) = [[1, 0]]"
    by auto
  from removeDocument_effect [of storeAB "''faq-001''" diskAbsent] h2
  have b: "removeDocument ''faq-001'' storeAB diskAbsent = (Inr False, storeAB, diskAbsent)"
    by blast
  from h1 h2 a b show ?thesis by blast
qed

text \<open>
  C6 as stated fails where the disk cannot be written (the error of \<open>save\<close> comes back
  instead of true, after the removal), and on a store with fewer embeddings than
  documents (the embedding count stays).
\<close>

theorem removeDocument_present_failures:
  "fst (removeDocument ''policy-001'' storeAB diskReadOnly) = Inl IOError \<and>
   documents (fst (snd (removeDocument ''policy-001'' storeAB diskReadOnly))) = [docA] \<and>
   length (embeddings (fst (snd (removeDocument ''policy-001'' storeLopsided diskAbsent))))
     = length (embeddings storeLopsided)"
  by (simp add: removeDocument_def storeAB_def storeLopsided_def docA_def docB_def save_def
        diskReadOnly_def diskAbsent_def splice1_def Let_def)

section \<open>Properties of the search\<close>


lemma insertBy_set: "set (insertBy cmp x ys) = insert x (set ys)"
  by (induction ys) auto




lemma sortBy_set: "set (sortBy cmp xs) = set xs"
  by (induction xs) (simp_all add: sortBy_def insertBy_set)








lemma topResults_subset: "set (topResults scores k) \<subseteq> set scores"
  unfolding topResults_def slice0_def Let_def
  using set_take_subset [of _ "sortBy (\<lambda>a b. snd b - snd a) scores"] by (simp add: sortBy_set)

lemma search_empty:
  "documents (initialize st dk) = [] \<Longrightarrow> search ge q k st dk = (Inr [], initialize st dk)"
  by (simp add: search_def Let_def)



















section \<open>Properties of the RAG pipeline\<close>










































end
